theory Spec2Isabelle
  imports
    Main
    "HOL-Library.Word"
    "HOL-Library.Finite_Map"
    "HOL-Library.AList"
    "HOL-Library.Multiset"
    "HOL-Library.Char_ord"
    "HOL-Library.List_Lexorder"
    "HOL-Library.Sublist"
begin

unbundle bit_operations_syntax

chapter \<open>Cart ingestion: change detection, event identifiers, publishing\<close>

text \<open>
  A shallow embedding of \<^verbatim>\<open>near_realtime_ingestion_2.py\<close>. Python values are
  modelled as follows.
  \<^item> A Python \<^verbatim>\<open>str\<close> is a \<^typ>\<open>string\<close>; a \<^typ>\<open>char\<close> stands for the code point
    of the same number, so the model covers strings over the code points 0 to 255.
  \<^item> A JSON scalar (\<^verbatim>\<open>None\<close>, \<^verbatim>\<open>bool\<close>, \<^verbatim>\<open>int\<close>, \<^verbatim>\<open>str\<close>) is a value of
    the datatype \<open>scalar\<close>; floating point numbers are not modelled.
  \<^item> A line item of a cart (a flat \<^verbatim>\<open>dict\<close> such as
    \<^verbatim>\<open>{"productId": 1, "quantity": 4}\<close>) is a finite map from keys to scalars. Two
    finite maps are equal exactly when the two dicts have the same keys with the same
    values, whatever the insertion order.
  \<^item> An exception is a value \<open>Inl e\<close> of a sum type.
\<close>

section \<open>Python values\<close>

datatype py_error = KeyError | TypeError

datatype scalar = JNull | JBool bool | JInt int | JStr string

type_synonym product = "(string, scalar) fmap"

subsection \<open>\<^verbatim>\<open>str()\<close> of a scalar\<close>

definition digit_char :: "nat \<Rightarrow> char" where
  "digit_char n = char_of (48 + n mod 10)"

fun str_nat :: "nat \<Rightarrow> string" where
  "str_nat n = (if n < 10 then [digit_char n] else str_nat (n div 10) @ [digit_char n])"

declare str_nat.simps [simp del]

definition str_int :: "int \<Rightarrow> string" where
  "str_int i = (if i < 0 then CHR ''-'' # str_nat (nat (- i)) else str_nat (nat i))"

fun py_str :: "scalar \<Rightarrow> string" where
  "py_str JNull = ''None''"
| "py_str (JBool b) = (if b then ''True'' else ''False'')"
| "py_str (JInt i) = str_int i"
| "py_str (JStr s) = s"

subsection \<open>\<^verbatim>\<open>==\<close> on scalars\<close>

text \<open>In Python \<^verbatim>\<open>True == 1\<close> and \<^verbatim>\<open>False == 0\<close>; values of different kinds are
  unequal otherwise.\<close>

fun num_of :: "scalar \<Rightarrow> int option" where
  "num_of (JBool b) = Some (if b then 1 else 0)"
| "num_of (JInt i) = Some i"
| "num_of _ = None"

fun str_of :: "scalar \<Rightarrow> string option" where
  "str_of (JStr s) = Some s"
| "str_of _ = None"


subsection \<open>\<^verbatim>\<open>json.dumps(..., sort_keys=True)\<close>\<close>

text \<open>
  The default encoder: separators \<^verbatim>\<open>", "\<close> and \<^verbatim>\<open>": "\<close>, \<^verbatim>\<open>ensure_ascii=True\<close>.
  Inside a string the quote and the backslash are escaped with a backslash, the control
  characters \<^verbatim>\<open>\b \t \n \f \r\<close> have their short forms, and every other character outside
  the range from space to tilde is written \<^verbatim>\<open>\u00XX\<close>.
\<close>

definition hex_digit :: "int \<Rightarrow> char" where
  "hex_digit n = ''0123456789abcdef'' ! nat (n mod 16)"

definition hex_byte :: "int \<Rightarrow> string" where
  "hex_byte b = [hex_digit (b div 16), hex_digit b]"

definition json_escape_char :: "char \<Rightarrow> string" where
  "json_escape_char c =
     (if c = CHR 0x22 then [CHR 0x5C, CHR 0x22]
      else if c = CHR 0x5C then [CHR 0x5C, CHR 0x5C]
      else if c = CHR 0x0A then [CHR 0x5C, CHR ''n'']
      else if c = CHR 0x0D then [CHR 0x5C, CHR ''r'']
      else if c = CHR 0x09 then [CHR 0x5C, CHR ''t'']
      else if c = CHR 0x08 then [CHR 0x5C, CHR ''b'']
      else if c = CHR 0x0C then [CHR 0x5C, CHR ''f'']
      else if (32::int) \<le> of_char c \<and> of_char c \<le> (126::int) then [c]
      else [CHR 0x5C, CHR ''u'', CHR ''0'', CHR ''0''] @ hex_byte (of_char c))"

definition json_string :: "string \<Rightarrow> string" where
  "json_string s = CHR 0x22 # concat (map json_escape_char s) @ [CHR 0x22]"

fun dumps_scalar :: "scalar \<Rightarrow> string" where
  "dumps_scalar JNull = ''null''"
| "dumps_scalar (JBool b) = (if b then ''true'' else ''false'')"
| "dumps_scalar (JInt i) = str_int i"
| "dumps_scalar (JStr s) = json_string s"

fun join :: "string \<Rightarrow> string list \<Rightarrow> string" where
  "join sep [] = []"
| "join sep [x] = x"
| "join sep (x # y # ys) = x @ sep @ join sep (y # ys)"

definition dumps_item :: "string \<times> scalar \<Rightarrow> string" where
  "dumps_item kv = json_string (fst kv) @ '': '' @ dumps_scalar (snd kv)"

text \<open>With \<^verbatim>\<open>sort_keys=True\<close> the items of a dict are written in the order of their keys.\<close>

definition dumps_dict :: "product \<Rightarrow> string" where
  "dumps_dict p = ''{'' @ join '', '' (map dumps_item (sorted_list_of_fmap p)) @ ''}''"

definition json_dumps :: "product list \<Rightarrow> string" where
  "json_dumps ps = ''['' @ join '', '' (map dumps_dict ps) @ '']''"

section \<open>The canonical signature of a list of line items\<close>

text \<open>
  \<^verbatim>\<open>sorted(products, key=lambda p: p["productId"])\<close> first computes the key of every
  item, in order, and raises \<^verbatim>\<open>KeyError\<close> at the first item without a
  \<^verbatim>\<open>productId\<close>. A list of fewer than two items is returned without any comparison.
  Otherwise the keys are compared with \<^verbatim>\<open><\<close>: numbers (booleans included) compare
  with numbers, strings with strings, and every other comparison raises
  \<^verbatim>\<open>TypeError\<close>. The sort is stable.
\<close>

definition product_key :: "product \<Rightarrow> py_error + scalar" where
  "product_key p = (case fmlookup p ''productId'' of None \<Rightarrow> Inl KeyError | Some k \<Rightarrow> Inr k)"

fun collect :: "('a \<Rightarrow> py_error + 'b) \<Rightarrow> 'a list \<Rightarrow> py_error + 'b list" where
  "collect f [] = Inr []"
| "collect f (x # xs) =
     (case f x of
        Inl e \<Rightarrow> Inl e
      | Inr y \<Rightarrow> (case collect f xs of Inl e \<Rightarrow> Inl e | Inr ys \<Rightarrow> Inr (y # ys)))"

definition num_key :: "product \<Rightarrow> int" where
  "num_key p = the (num_of (the (fmlookup p ''productId'')))"

definition str_key :: "product \<Rightarrow> string" where
  "str_key p = the (str_of (the (fmlookup p ''productId'')))"

definition sorted_by_productId :: "product list \<Rightarrow> py_error + product list" where
  "sorted_by_productId products =
     (case collect product_key products of
        Inl e \<Rightarrow> Inl e
      | Inr keys \<Rightarrow>
          if length products < 2 then Inr products
          else if list_all (\<lambda>k. num_of k \<noteq> None) keys then Inr (sort_key num_key products)
          else if list_all (\<lambda>k. str_of k \<noteq> None) keys then Inr (sort_key str_key products)
          else Inl TypeError)"

definition calculate_products_signature :: "product list \<Rightarrow> py_error + string" where
  "calculate_products_signature products =
     (case sorted_by_productId products of
        Inl e \<Rightarrow> Inl e
      | Inr sorted_products \<Rightarrow> Inr (json_dumps sorted_products))"


section \<open>MD5\<close>

text \<open>
  \<^verbatim>\<open>hashlib.md5(s.encode('utf-8')).hexdigest()\<close>, after RFC 1321. Bytes are integers
  from 0 to 255; the four state words are 32-bit machine words, whose addition wraps.
\<close>

type_synonym w32 = "32 word"

definition md5_K :: "w32 list" where
  "md5_K =
   [0xd76aa478, 0xe8c7b756, 0x242070db, 0xc1bdceee, 0xf57c0faf, 0x4787c62a, 0xa8304613, 0xfd469501,
    0x698098d8, 0x8b44f7af, 0xffff5bb1, 0x895cd7be, 0x6b901122, 0xfd987193, 0xa679438e, 0x49b40821,
    0xf61e2562, 0xc040b340, 0x265e5a51, 0xe9b6c7aa, 0xd62f105d, 0x02441453, 0xd8a1e681, 0xe7d3fbc8,
    0x21e1cde6, 0xc33707d6, 0xf4d50d87, 0x455a14ed, 0xa9e3e905, 0xfcefa3f8, 0x676f02d9, 0x8d2a4c8a,
    0xfffa3942, 0x8771f681, 0x6d9d6122, 0xfde5380c, 0xa4beea44, 0x4bdecfa9, 0xf6bb4b60, 0xbebfbc70,
    0x289b7ec6, 0xeaa127fa, 0xd4ef3085, 0x04881d05, 0xd9d4d039, 0xe6db99e5, 0x1fa27cf8, 0xc4ac5665,
    0xf4292244, 0x432aff97, 0xab9423a7, 0xfc93a039, 0x655b59c3, 0x8f0ccc92, 0xffeff47d, 0x85845dd1,
    0x6fa87e4f, 0xfe2ce6e0, 0xa3014314, 0x4e0811a1, 0xf7537e82, 0xbd3af235, 0x2ad7d2bb, 0xeb86d391]"

definition md5_s :: "nat list" where
  "md5_s =
   [7, 12, 17, 22, 7, 12, 17, 22, 7, 12, 17, 22, 7, 12, 17, 22,
    5, 9, 14, 20, 5, 9, 14, 20, 5, 9, 14, 20, 5, 9, 14, 20,
    4, 11, 16, 23, 4, 11, 16, 23, 4, 11, 16, 23, 4, 11, 16, 23,
    6, 10, 15, 21, 6, 10, 15, 21, 6, 10, 15, 21, 6, 10, 15, 21]"

definition leftrotate :: "w32 \<Rightarrow> nat \<Rightarrow> w32" where
  "leftrotate x c = (push_bit c x) OR (drop_bit (32 - c) x)"

text \<open>One of the 64 operations on a block; the state is \<open>(A, B, C, D)\<close> and \<open>M\<close> holds
  the sixteen words of the block.\<close>

definition md5_step :: "w32 list \<Rightarrow> w32 \<times> w32 \<times> w32 \<times> w32 \<Rightarrow> nat \<Rightarrow> w32 \<times> w32 \<times> w32 \<times> w32" where
  "md5_step M st i =
     (case st of (A, B, C, D) \<Rightarrow>
        let (F, g) =
              (if i < 16 then ((B AND C) OR (NOT B AND D), i)
               else if i < 32 then ((D AND B) OR (NOT D AND C), (5 * i + 1) mod 16)
               else if i < 48 then (B XOR C XOR D, (3 * i + 5) mod 16)
               else (C XOR (B OR NOT D), (7 * i) mod 16));
            F' = F + A + md5_K ! i + M ! g
        in (D, B + leftrotate F' (md5_s ! i), B, C))"

fun le_word32 :: "int list \<Rightarrow> w32" where
  "le_word32 [b0, b1, b2, b3] = of_int (b0 + 256 * b1 + 65536 * b2 + 16777216 * b3)"
| "le_word32 _ = 0"

fun chunks :: "nat \<Rightarrow> 'a list \<Rightarrow> 'a list list" where
  "chunks n xs = (if n = 0 \<or> xs = [] then [] else take n xs # chunks n (drop n xs))"

declare chunks.simps [simp del]

definition md5_block :: "w32 \<times> w32 \<times> w32 \<times> w32 \<Rightarrow> int list \<Rightarrow> w32 \<times> w32 \<times> w32 \<times> w32" where
  "md5_block h blk =
     (let M = map le_word32 (chunks 4 blk) in
      case (h, foldl (md5_step M) h [0..<64]) of
        ((a0, b0, c0, d0), (A, B, C, D)) \<Rightarrow> (a0 + A, b0 + B, c0 + C, d0 + D))"

definition le_bytes :: "nat \<Rightarrow> int \<Rightarrow> int list" where
  "le_bytes k n = map (\<lambda>i. (n div 256 ^ i) mod 256) [0..<k]"

definition md5_pad :: "int list \<Rightarrow> int list" where
  "md5_pad msg =
     msg @ [128] @ replicate ((119 - length msg mod 64) mod 64) 0
         @ le_bytes 8 ((8 * int (length msg)) mod 2 ^ 64)"

definition md5_digest :: "int list \<Rightarrow> int list" where
  "md5_digest msg =
     (case foldl md5_block (0x67452301, 0xefcdab89, 0x98badcfe, 0x10325476)
             (chunks 64 (md5_pad msg)) of
        (a, b, c, d) \<Rightarrow> concat (map (\<lambda>w. le_bytes 4 (uint w)) [a, b, c, d]))"

definition utf8_encode :: "string \<Rightarrow> int list" where
  "utf8_encode s =
     concat (map (\<lambda>c. let n = (of_char c :: int) in
                        if n < 128 then [n] else [192 + n div 64, 128 + n mod 64]) s)"

definition md5_hexdigest :: "string \<Rightarrow> string" where
  "md5_hexdigest s = concat (map hex_byte (md5_digest (utf8_encode s)))"

section \<open>Carts and events\<close>

text \<open>
  A cart is the dict decoded from the API. The program reads five of its keys; a field is
  \<open>None\<close> when the key is absent. \<^verbatim>\<open>cart["id"]\<close>, \<^verbatim>\<open>cart["date"]\<close> and
  \<^verbatim>\<open>cart["userId"]\<close> raise \<^verbatim>\<open>KeyError\<close> on an absent key, while
  \<^verbatim>\<open>cart.get("products", [])\<close> and \<^verbatim>\<open>cart.get("__v", 0)\<close> have defaults.
\<close>

record cart =
  c_id :: "scalar option"
  c_userId :: "scalar option"
  c_date :: "scalar option"
  c_products :: "product list option"
  c_v :: "scalar option"

definition get_products :: "cart \<Rightarrow> product list" where
  "get_products c = (case c_products c of None \<Rightarrow> [] | Some ps \<Rightarrow> ps)"

definition get_v :: "cart \<Rightarrow> scalar" where
  "get_v c = (case c_v c of None \<Rightarrow> JInt 0 | Some v \<Rightarrow> v)"

definition generate_event_id :: "cart \<Rightarrow> py_error + string" where
  "generate_event_id c =
     (case c_id c of
        None \<Rightarrow> Inl KeyError
      | Some i \<Rightarrow>
     (case c_date c of
        None \<Rightarrow> Inl KeyError
      | Some d \<Rightarrow>
     (case calculate_products_signature (get_products c) of
        Inl e \<Rightarrow> Inl e
      | Inr products_sig \<Rightarrow>
          let cart_id = py_str i;
              hash_input = cart_id @ ''_'' @ py_str d @ ''_'' @ products_sig;
              event_hash = take 12 (md5_hexdigest hash_input)
          in Inr (''cart_'' @ cart_id @ ''_'' @ event_hash))))"

text \<open>The payload is kept as the dict that the program passes to \<^verbatim>\<open>json.dumps\<close>.\<close>

record payload =
  p_id :: scalar
  p_userId :: scalar
  p_date :: scalar
  p_products :: "product list"
  p_v :: scalar

record event =
  event_id :: string
  event_type :: string
  event_schema_version :: string
  source :: string
  extracted_at :: string
  published_at :: string
  run_id :: string
  data :: payload

definition EVENT_SCHEMA_VERSION :: string where
  "EVENT_SCHEMA_VERSION = ''1.0''"

definition SOURCE_NAME :: string where
  "SOURCE_NAME = ''fake-store-api''"

text \<open>\<open>now\<close> is the reading of the clock, \<^verbatim>\<open>datetime.now().isoformat()\<close>.\<close>

definition create_event :: "string \<Rightarrow> cart \<Rightarrow> string \<Rightarrow> string \<Rightarrow> string \<Rightarrow> py_error + event" where
  "create_event now c etype extracted rid =
     (case generate_event_id c of
        Inl e \<Rightarrow> Inl e
      | Inr eid \<Rightarrow>
     (case c_userId c of
        None \<Rightarrow> Inl KeyError
      | Some u \<Rightarrow>
          Inr \<lparr>event_id = eid,
               event_type = etype,
               event_schema_version = EVENT_SCHEMA_VERSION,
               source = SOURCE_NAME,
               extracted_at = extracted,
               published_at = now @ ''Z'',
               run_id = rid,
               data = \<lparr>p_id = the (c_id c),
                       p_userId = u,
                       p_date = the (c_date c),
                       p_products = get_products c,
                       p_v = get_v c\<rparr>\<rparr>))"

section \<open>The snapshot\<close>





section \<open>Change detection\<close>


text \<open>\<^verbatim>\<open>str(c["id"])\<close>, which raises \<^verbatim>\<open>KeyError\<close> when the cart has no id.\<close>

definition cart_key :: "cart \<Rightarrow> py_error + string" where
  "cart_key c = (case c_id c of None \<Rightarrow> Inl KeyError | Some i \<Rightarrow> Inr (py_str i))"






section \<open>Publishing\<close>










section \<open>Notions used to state the properties of change detection\<close>












section \<open>Example inputs\<close>




definition ex_cart_2 :: cart where
  "ex_cart_2 =
     \<lparr>c_id = Some (JInt 2), c_userId = Some (JInt 3), c_date = Some (JStr ''2020-01-01''),
      c_products = Some [], c_v = Some (JInt 0)\<rparr>"

definition ex_cart_2_deleted :: cart where
  "ex_cart_2_deleted =
     \<lparr>c_id = Some (JStr ''2''), c_userId = Some (JInt 3), c_date = Some (JStr ''2020-01-01''),
      c_products = Some [], c_v = None\<rparr>"









section \<open>The model of MD5 on a test vector of RFC 1321\<close>

lemma md5_abc: "md5_hexdigest ''abc'' = ''900150983cd24fb0d6963f7d28e17f72''"
  by code_simp

section \<open>Event identifiers\<close>

text \<open>
  C10. The event id is a function of the cart's id, date and products only. Two carts whose
  ids and dates read the same under \<^verbatim>\<open>str()\<close> and whose products are the same get the
  same event id (or the same exception), whatever the event types, the extraction
  timestamps, the run ids and the clock readings are. With \<open>c' = c\<close> this says that the
  id of an event does not depend on its type or metadata.
\<close>

lemma generate_event_id_cong:
  assumes "map_option py_str (c_id c) = map_option py_str (c_id c')"
    and "map_option py_str (c_date c) = map_option py_str (c_date c')"
    and "get_products c = get_products c'"
  shows "generate_event_id c = generate_event_id c'"
proof (cases "c_id c")
  case None
  with assms(1) have "c_id c' = None" by simp
  with None show ?thesis by (simp add: generate_event_id_def)
next
  case i: (Some i)
  with assms(1) obtain i' where i': "c_id c' = Some i'" "py_str i' = py_str i"
    by (cases "c_id c'") auto
  show ?thesis
  proof (cases "c_date c")
    case None
    with assms(2) have "c_date c' = None" by simp
    with None i i' show ?thesis by (simp add: generate_event_id_def)
  next
    case d: (Some d)
    with assms(2) obtain d' where d': "c_date c' = Some d'" "py_str d' = py_str d"
      by (cases "c_date c'") auto
    show ?thesis using i i' d d' assms(3)
      by (simp add: generate_event_id_def Let_def cong: sum.case_cong)
  qed
qed

theorem event_id_independent_of_type_and_metadata:
  assumes "map_option py_str (c_id c) = map_option py_str (c_id c')"
    and "map_option py_str (c_date c) = map_option py_str (c_date c')"
    and "get_products c = get_products c'"
    and "(c_userId c = None) = (c_userId c' = None)"
  shows "map_sum id event_id (create_event now1 c t1 x1 r1)
       = map_sum id event_id (create_event now2 c' t2 x2 r2)"
proof -
  have g: "generate_event_id c = generate_event_id c'"
    using assms(1-3) by (rule generate_event_id_cong)
  show ?thesis
  proof (cases "generate_event_id c'")
    case (Inl e)
    with g show ?thesis by (simp add: create_event_def)
  next
    case (Inr eid)
    with g assms(4) show ?thesis
      by (cases "c_userId c"; cases "c_userId c'") (simp_all add: create_event_def)
  qed
qed

theorem event_id_independent_of_type_and_metadata_witness:
  "map_option py_str (c_id ex_cart_2) = map_option py_str (c_id ex_cart_2_deleted)
   \<and> map_option py_str (c_date ex_cart_2) = map_option py_str (c_date ex_cart_2_deleted)
   \<and> get_products ex_cart_2 = get_products ex_cart_2_deleted
   \<and> (c_userId ex_cart_2 = None) = (c_userId ex_cart_2_deleted = None)
   \<and> map_sum id event_id
        (create_event ''2024-05-01T10:00:00'' ex_cart_2 ''cart_created'' ''2024-05-01T09:59:59Z'' ''ab12cd34'')
     = map_sum id event_id
        (create_event ''2024-05-02T11:00:00'' ex_cart_2_deleted ''cart_deleted'' ''2024-05-02T10:59:59Z'' ''ef56ab78'')
   \<and> generate_event_id ex_cart_2 = Inr ''cart_2_9244e9a47cb3''"
proof -
  have ids: "map_option py_str (c_id ex_cart_2) = map_option py_str (c_id ex_cart_2_deleted)"
    by (simp add: ex_cart_2_def ex_cart_2_deleted_def) code_simp
  have rest: "map_option py_str (c_date ex_cart_2) = map_option py_str (c_date ex_cart_2_deleted)"
    "get_products ex_cart_2 = get_products ex_cart_2_deleted"
    "(c_userId ex_cart_2 = None) = (c_userId ex_cart_2_deleted = None)"
    by (simp_all add: ex_cart_2_def ex_cart_2_deleted_def get_products_def)
  have eid: "generate_event_id ex_cart_2 = Inr ''cart_2_9244e9a47cb3''"
    by code_simp
  show ?thesis
    using event_id_independent_of_type_and_metadata [OF ids rest] ids rest eid by simp
qed

section \<open>Change detection\<close>

lemma cart_key_None: "c_id c = None \<Longrightarrow> cart_key c = Inl KeyError"
  by (simp add: cart_key_def)































section \<open>Publishing with retries and dead letter\<close>





end
